theory Spec2Isabelle
  imports Main
begin

section \<open>Data model of the logging facade (log.go)\<close>

text \<open>
  \<^verbatim>\<open>zapcore.Level\<close> is a signed 8-bit integer that the facade only stores and compares;
  it is modelled as an integer with the library's constants.
\<close>

type_synonym Level = int

definition DebugLevel :: Level where "DebugLevel = - 1"
definition InfoLevel :: Level where "InfoLevel = 0"
definition WarnLevel :: Level where "WarnLevel = 1"
definition ErrorLevel :: Level where "ErrorLevel = 2"

text \<open>
  Encoders of the zap library are opaque to the facade: they are named, not computed.
  \<open>timeEncoder\<close> is the facade's own time formatter (layout \<^verbatim>\<open>2006-01-02 15:04:05.000\<close>).
\<close>

datatype TimeEncoder = NoTimeEncoder | EpochTimeEncoder | ISO8601TimeEncoder | timeEncoder

datatype LevelEncoder =
  NoLevelEncoder | LowercaseLevelEncoder | CapitalLevelEncoder | CapitalColorLevelEncoder

record EncoderConfig =
  EncodeLevel :: LevelEncoder
  EncodeTime :: TimeEncoder

text \<open>
  \<^verbatim>\<open>zap.Config\<close>, with the fields the facade reads or writes. A nil slice and an empty
  slice are both the empty list (the source tests \<^verbatim>\<open>== nil || len(..) == 0\<close>).
\<close>

record zap_Config =
  cfg_Level :: Level
  cfg_Development :: bool
  DisableStacktrace :: bool
  Encoding :: string
  cfg_EncoderConfig :: EncoderConfig
  OutputPaths :: "string list"
  ErrorOutputPaths :: "string list"

record Options =
  LogFileDir :: string
  AppName :: string
  FileName :: string
  ErrorFileName :: string
  WarnFileName :: string
  InfoFileName :: string
  DebugFileName :: string
  Level :: Level
  MaxSize :: int
  MaxBackups :: int
  MaxAge :: int
  Development :: bool
  Config :: zap_Config
  Merge :: bool

text \<open>\<^verbatim>\<open>type Option func(options *Options)\<close>: a mutation of the options in place.\<close>

type_synonym Option = "Options \<Rightarrow> Options"

record lumberjack_Logger =
  Filename :: string
  lj_MaxSize :: int
  lj_MaxBackups :: int
  lj_MaxAge :: int
  Compress :: bool
  LocalTime :: bool

text \<open>
  A \<^verbatim>\<open>zapcore.WriteSyncer\<close>: the nil interface value (the global \<open>fileWs\<close> before it is
  assigned), a rotating file writer, or the locked standard output.
\<close>

datatype WriteSyncer = nilWs | AddSync lumberjack_Logger | consoleWs

datatype Encoder = NewJSONEncoder EncoderConfig | NewConsoleEncoder EncoderConfig

text \<open>
  A core of the tee. Its level enabler is the closure \<open>filePriority\<close> of \<open>cores\<close>, which
  reads the atomic level of the logger's \<open>zapConfig\<close> each time it is asked; the closure is
  kept as a function of the configuration current at the time of the question.
\<close>

record Core =
  core_enc :: Encoder
  core_ws :: WriteSyncer
  core_enab :: "zap_Config \<Rightarrow> Level \<Rightarrow> bool"

text \<open>The built \<^verbatim>\<open>*zap.Logger\<close>: the cores under the tee that replaced the base core.\<close>

record zap_Logger =
  tee :: "Core list"

record Logger =
  zLogger :: "zap_Logger option"
  Opts :: "Options option"
  zapConfig :: zap_Config
  inited :: bool

text \<open>Observable effects: a sink constructed, a record written to a sink.\<close>

datatype event =
  SinkConstructed WriteSyncer
  | Written WriteSyncer Encoder Level string

text \<open>The four global entry points point at the bootstrap core or at a built logger.\<close>

datatype binding = Bootstrap | Rebound "zap_Logger option"

text \<open>The package's global variables, and the trace of effects.\<close>

record state =
  g_l :: "Logger option"
  g_fileWs :: WriteSyncer
  g_entry :: binding
  g_trace :: "event list"

text \<open>
  What the facade takes from its surroundings: the absolute path of the working directory
  as \<^verbatim>\<open>filepath.Abs\<close> returns it (empty on error, the error being dropped), the path
  separator \<open>sp\<close>, and the error, if any, with which \<^verbatim>\<open>zap.Config.Build\<close> fails.
\<close>

record env =
  cwd :: string
  sp :: string
  build_error :: "zap_Config \<Rightarrow> string option"

datatype 'a result = Return 'a | Panic string

section \<open>The presets of the zap library\<close>

text \<open>
  The zero value of \<^verbatim>\<open>zap.Config\<close>, and the two presets of the library the facade
  starts from (their encoding, encoder functions, level and output paths).
\<close>

definition zero_EncoderConfig :: EncoderConfig where
  "zero_EncoderConfig = \<lparr>EncodeLevel = NoLevelEncoder, EncodeTime = NoTimeEncoder\<rparr>"

definition zero_Config :: zap_Config where
  "zero_Config = \<lparr>cfg_Level = 0, cfg_Development = False, DisableStacktrace = False,
     Encoding = [], cfg_EncoderConfig = zero_EncoderConfig, OutputPaths = [],
     ErrorOutputPaths = []\<rparr>"

definition NewProductionEncoderConfig :: EncoderConfig where
  "NewProductionEncoderConfig =
     \<lparr>EncodeLevel = LowercaseLevelEncoder, EncodeTime = EpochTimeEncoder\<rparr>"

definition NewDevelopmentEncoderConfig :: EncoderConfig where
  "NewDevelopmentEncoderConfig =
     \<lparr>EncodeLevel = CapitalLevelEncoder, EncodeTime = ISO8601TimeEncoder\<rparr>"

definition NewProductionConfig :: zap_Config where
  "NewProductionConfig = \<lparr>cfg_Level = InfoLevel, cfg_Development = False,
     DisableStacktrace = False, Encoding = ''json'',
     cfg_EncoderConfig = NewProductionEncoderConfig, OutputPaths = [''stderr''],
     ErrorOutputPaths = [''stderr'']\<rparr>"

definition NewDevelopmentConfig :: zap_Config where
  "NewDevelopmentConfig = \<lparr>cfg_Level = DebugLevel, cfg_Development = True,
     DisableStacktrace = False, Encoding = ''console'',
     cfg_EncoderConfig = NewDevelopmentEncoderConfig, OutputPaths = [''stderr''],
     ErrorOutputPaths = [''stderr'']\<rparr>"

section \<open>The logger: construction, sinks, level\<close>

definition nil_dereference :: string where
  "nil_dereference = ''invalid memory address or nil pointer dereference''"

text \<open>
  What a built logger does with a record at level \<open>lvl\<close>: the tee offers it to every core,
  and each core whose enabler accepts the level writes it with its own encoder.
\<close>

definition zap_log :: "zap_Config \<Rightarrow> zap_Logger \<Rightarrow> Level \<Rightarrow> string \<Rightarrow> event list" where
  "zap_log cfg z lvl msg =
     map (\<lambda>c. Written (core_ws c) (core_enc c) lvl msg)
       (filter (\<lambda>c. core_enab c cfg lvl) (tee z))"

text \<open>\<^verbatim>\<open>l.Info(msg)\<close>: the method of the embedded \<^verbatim>\<open>*zap.Logger\<close>, which may be nil.\<close>

definition l_Info :: "Logger \<Rightarrow> string \<Rightarrow> state \<Rightarrow> unit result \<times> state" where
  "l_Info lg msg st =
     (case zLogger lg of
        None \<Rightarrow> (Panic nil_dereference, st)
      | Some z \<Rightarrow>
          (Return (), st\<lparr>g_trace := g_trace st @ zap_log (zapConfig lg) z InfoLevel msg\<rparr>))"

text \<open>The closure \<open>f\<close> of \<open>setSyncers\<close>: the file sink for a file-name suffix.\<close>

definition setSyncers_f :: "env \<Rightarrow> Options \<Rightarrow> string \<Rightarrow> WriteSyncer" where
  "setSyncers_f e opts fN =
     (let fileName = LogFileDir opts @ sp e @ AppName opts @ ''-'' @ fN;
          fileName = (if length fN = length ''.log''
                      then LogFileDir opts @ sp e @ AppName opts @ fN
                      else fileName)
      in AddSync \<lparr>Filename = fileName, lj_MaxSize = MaxSize opts,
           lj_MaxBackups = MaxBackups opts, lj_MaxAge = MaxAge opts,
           Compress = True, LocalTime = True\<rparr>)"

definition setSyncers :: "env \<Rightarrow> Logger \<Rightarrow> state \<Rightarrow> unit result \<times> state" where
  "setSyncers e lg st =
     (case Opts lg of
        None \<Rightarrow> (Panic nil_dereference, st)
      | Some opts \<Rightarrow>
          (let ws = setSyncers_f e opts (FileName opts)
           in (Return (), st\<lparr>g_fileWs := ws, g_trace := g_trace st @ [SinkConstructed ws]\<rparr>)))"

definition filePriority :: "zap_Config \<Rightarrow> Level \<Rightarrow> bool" where
  "filePriority cfg lvl = (lvl \<ge> cfg_Level cfg)"

definition cores :: "Logger \<Rightarrow> state \<Rightarrow> Core list result" where
  "cores lg st =
     (case Opts lg of
        None \<Rightarrow> Panic nil_dereference
      | Some opts \<Rightarrow>
          (let fileEncoder = NewJSONEncoder (cfg_EncoderConfig (zapConfig lg));
               encoderConfig = NewDevelopmentEncoderConfig;
               encoderConfig = encoderConfig\<lparr>EncodeTime := timeEncoder\<rparr>;
               encoderConfig = encoderConfig\<lparr>EncodeLevel := CapitalColorLevelEncoder\<rparr>;
               consoleEncoder = NewConsoleEncoder encoderConfig;
               cs = [\<lparr>core_enc = fileEncoder, core_ws = g_fileWs st,
                       core_enab = filePriority\<rparr>];
               cs = (if Development opts
                     then cs @ [\<lparr>core_enc = consoleEncoder, core_ws = consoleWs,
                                   core_enab = filePriority\<rparr>]
                     else cs)
           in Return cs))"

text \<open>
  \<open>init\<close>: build the sink, then the logger from \<open>zapConfig\<close> with the tee of \<open>cores\<close> in
  place of the base core; a build error panics. The deferred \<^verbatim>\<open>Sync\<close> only flushes.
\<close>

definition init :: "env \<Rightarrow> Logger \<Rightarrow> state \<Rightarrow> unit result \<times> Logger \<times> state" where
  "init e lg st =
     (case setSyncers e lg st of
        (Panic p, st1) \<Rightarrow> (Panic p, lg, st1)
      | (Return u, st1) \<Rightarrow>
          (case cores lg st1 of
             Panic p \<Rightarrow> (Panic p, lg, st1)
           | Return cs \<Rightarrow>
               (case build_error e (zapConfig lg) of
                  Some err \<Rightarrow> (Panic err, lg\<lparr>zLogger := None\<rparr>, st1)
                | None \<Rightarrow> (Return (), lg\<lparr>zLogger := Some \<lparr>tee = cs\<rparr>\<rparr>, st1))))"

text \<open>
  The options literal of \<open>NewLogger\<close>; the fields it leaves out have their zero value.
  \<open>NewLogger\<close> itself follows the source statement by statement: the fresh logger assigned
  to the global \<open>l\<close>, the guard on its \<open>inited\<close> flag, the defaults, the preset chosen by
  \<open>Development\<close>, the two tests on the output paths, the option loop, \<open>init\<close>, the success
  record and the rebinding of the entry points. The mutex it takes is the fresh logger's
  own and the calls modelled are sequential, so locking has no effect here. The state
  returned with a panic is the state in which the panic leaves the globals.
\<close>

definition default_Options :: Options where
  "default_Options = \<lparr>LogFileDir = [], AppName = ''app'', FileName = ''.log'',
     ErrorFileName = [], WarnFileName = [], InfoFileName = [], DebugFileName = [],
     Level = DebugLevel, MaxSize = 100, MaxBackups = 60, MaxAge = 30,
     Development = False, Config = zero_Config, Merge = False\<rparr>"

definition NewLogger :: "env \<Rightarrow> Option list \<Rightarrow> state \<Rightarrow> zap_Logger option result \<times> state" where
  "NewLogger e opt st =
     (let lg = \<lparr>zLogger = None, Opts = None, zapConfig = zero_Config, inited = False\<rparr>
      in if inited lg
         then (case l_Info lg ''[NewLogger] logger Inited'' st of
                 (Panic p, st1) \<Rightarrow> (Panic p, st1\<lparr>g_l := Some lg\<rparr>)
               | (Return u, st1) \<Rightarrow> (Return None, st1\<lparr>g_l := Some lg\<rparr>))
         else
           (let opts = default_Options;
                opts = (if LogFileDir opts = []
                        then opts\<lparr>LogFileDir := cwd e @ sp e @ ''logs'' @ sp e\<rparr>
                        else opts);
                cfg = (if Development opts
                       then NewDevelopmentConfig\<lparr>cfg_EncoderConfig :=
                              (cfg_EncoderConfig NewDevelopmentConfig)\<lparr>EncodeTime := timeEncoder\<rparr>\<rparr>
                       else NewProductionConfig\<lparr>cfg_EncoderConfig :=
                              (cfg_EncoderConfig NewProductionConfig)\<lparr>EncodeTime := timeEncoder\<rparr>\<rparr>);
                cfg = (if OutputPaths (Config opts) = []
                       then cfg\<lparr>OutputPaths := [''stdout'']\<rparr> else cfg);
                cfg = (if ErrorOutputPaths (Config opts) = []
                       then cfg\<lparr>OutputPaths := [''stderr'']\<rparr> else cfg);
                opts = foldl (\<lambda>opts fn. fn opts) opts opt;
                cfg = cfg\<lparr>DisableStacktrace := True\<rparr>;
                cfg = cfg\<lparr>cfg_Level := Level opts\<rparr>;
                lg = lg\<lparr>Opts := Some opts, zapConfig := cfg\<rparr>
            in case init e lg st of
                 (Panic p, lg1, st1) \<Rightarrow> (Panic p, st1\<lparr>g_l := Some lg1\<rparr>)
               | (Return u, lg1, st1) \<Rightarrow>
                   (let lg2 = lg1\<lparr>inited := True\<rparr>
                    in case l_Info lg2 ''[NewLogger] success'' st1 of
                         (Panic p, st2) \<Rightarrow> (Panic p, st2\<lparr>g_l := Some lg2\<rparr>)
                       | (Return u, st2) \<Rightarrow>
                           (Return (zLogger lg2),
                            st2\<lparr>g_l := Some lg2, g_entry := Rebound (zLogger lg2)\<rparr>))))"

text \<open>The option constructors.\<close>

definition WithMaxSize :: "int \<Rightarrow> Option" where
  "WithMaxSize v = (\<lambda>option. option\<lparr>MaxSize := v\<rparr>)"

definition WithMaxBackups :: "int \<Rightarrow> Option" where
  "WithMaxBackups v = (\<lambda>option. option\<lparr>MaxBackups := v\<rparr>)"

definition WithMaxAge :: "int \<Rightarrow> Option" where
  "WithMaxAge v = (\<lambda>option. option\<lparr>MaxAge := v\<rparr>)"

definition WithLogFileDir :: "string \<Rightarrow> Option" where
  "WithLogFileDir v = (\<lambda>option. option\<lparr>LogFileDir := v\<rparr>)"

definition WithAppName :: "string \<Rightarrow> Option" where
  "WithAppName v = (\<lambda>option. option\<lparr>AppName := v\<rparr>)"

definition WithLevel :: "Level \<Rightarrow> Option" where
  "WithLevel v = (\<lambda>option. option\<lparr>Level := v\<rparr>)"

definition WithFileName :: "string \<Rightarrow> Option" where
  "WithFileName v = (\<lambda>option. option\<lparr>FileName := v\<rparr>)"

definition WithErrorFileName :: "string \<Rightarrow> Option" where
  "WithErrorFileName v = (\<lambda>option. option\<lparr>ErrorFileName := v\<rparr>)"

definition WithWarnFileName :: "string \<Rightarrow> Option" where
  "WithWarnFileName v = (\<lambda>option. option\<lparr>WarnFileName := v\<rparr>)"

definition WithInfoFileName :: "string \<Rightarrow> Option" where
  "WithInfoFileName v = (\<lambda>option. option\<lparr>InfoFileName := v\<rparr>)"

definition WithDebugFileName :: "string \<Rightarrow> Option" where
  "WithDebugFileName v = (\<lambda>option. option\<lparr>DebugFileName := v\<rparr>)"

definition WithDevelopment :: "bool \<Rightarrow> Option" where
  "WithDevelopment v = (\<lambda>option. option\<lparr>Development := v\<rparr>)"

definition SetLevel :: "Level \<Rightarrow> state \<Rightarrow> unit result \<times> state" where
  "SetLevel level st =
     (case g_l st of
        None \<Rightarrow> (Return (), st)
      | Some lg \<Rightarrow>
          (case Opts lg of
             None \<Rightarrow> (Panic nil_dereference, st)
           | Some opts \<Rightarrow>
               (let opts = opts\<lparr>Level := level\<rparr>;
                    lg = lg\<lparr>Opts := Some opts\<rparr>;
                    lg = lg\<lparr>zapConfig := (zapConfig lg)\<lparr>cfg_Level := Level opts\<rparr>\<rparr>
                in case l_Info lg ''[SetLevel] success'' st of
                     (r, st1) \<Rightarrow> (r, st1\<lparr>g_l := Some lg\<rparr>))))"

definition Sync :: "state \<Rightarrow> unit result \<times> state" where
  "Sync st =
     (case g_l st of
        None \<Rightarrow> (Return (), st)
      | Some lg \<Rightarrow>
          (case zLogger lg of
             None \<Rightarrow> (Panic nil_dereference, st)
           | Some z \<Rightarrow> (Return (), st)))"

text \<open>The globals as the package's \<open>init\<close> leaves them, before any call.\<close>

definition initial_state :: state where
  "initial_state = \<lparr>g_l = None, g_fileWs = nilWs, g_entry = Bootstrap, g_trace = []\<rparr>"

section \<open>The crash recorder: dump-file naming and the recovery block\<close>

subsection \<open>Formatting verbs of \<^verbatim>\<open>fmt.Sprintf\<close>\<close>

text \<open>The decimal digit for \<open>d\<close>, taken modulo 10 so that every index is in range.\<close>

definition digit :: "nat \<Rightarrow> char" where
  "digit d = ''0123456789'' ! (d mod 10)"

fun itoa :: "nat \<Rightarrow> string" where
  "itoa n = (if n < 10 then [digit n] else itoa (n div 10) @ [digit (n mod 10)])"

declare itoa.simps [simp del]

text \<open>The verb \<^verbatim>\<open>%d\<close>.\<close>

definition fmt_d :: "int \<Rightarrow> string" where
  "fmt_d x = (if x < 0 then ''-'' @ itoa (nat (- x)) else itoa (nat x))"

text \<open>The verb \<^verbatim>\<open>%0wd\<close>: zeros after the sign up to the width \<open>w\<close>, never a cut.\<close>

definition fmt_0d :: "nat \<Rightarrow> int \<Rightarrow> string" where
  "fmt_0d w x =
     (if x < 0
      then ''-'' @ replicate (w - 1 - length (itoa (nat (- x)))) (CHR ''0'') @ itoa (nat (- x))
      else replicate (w - length (itoa (nat x))) (CHR ''0'') @ itoa (nat x))"

text \<open>\<^verbatim>\<open>strings.TrimRight(s, cutset)\<close>.\<close>

definition TrimRight :: "string \<Rightarrow> string \<Rightarrow> string" where
  "TrimRight s cutset = rev (dropWhile (\<lambda>c. c \<in> set cutset) (rev s))"

text \<open>Addition on a 64-bit \<^verbatim>\<open>int\<close> wraps around.\<close>

definition int64 :: "int \<Rightarrow> int" where
  "int64 x = (x + 2 ^ 63) mod 2 ^ 64 - 2 ^ 63"

subsection \<open>The local clock and the file system\<close>

record Time =
  Year :: int
  Month :: int
  Day :: int
  Hour :: int
  Minute :: int
  Second :: int

text \<open>
  The file system as the recorder sees it: a path names a regular file with its content,
  a directory, or nothing. A directory is named without a trailing slash.
\<close>

datatype node = File string | Dir

type_synonym filesystem = "string \<Rightarrow> node option"

definition os_Stat :: "filesystem \<Rightarrow> string \<Rightarrow> string + node" where
  "os_Stat fs name =
     (case fs name of
        None \<Rightarrow> Inl (''stat '' @ name @ '': no such file or directory'')
      | Some nd \<Rightarrow> Inr nd)"

definition IsDir :: "node \<Rightarrow> bool" where
  "IsDir nd = (case nd of Dir \<Rightarrow> True | File c \<Rightarrow> False)"

text \<open>
  \<^verbatim>\<open>os.MkdirAll\<close>: walk the directories on the way to \<open>path\<close> from the outermost, make each
  one that is missing, and give up (the error is dropped by the caller) at one that is a
  regular file.
\<close>

definition dir_prefixes :: "string \<Rightarrow> string list" where
  "dir_prefixes path =
     [take i path. i \<leftarrow> [1..<length path], path ! i = CHR ''/''] @
     (if path \<noteq> [] \<and> last path \<noteq> CHR ''/'' then [path] else [])"

fun mkdirs :: "filesystem \<Rightarrow> string list \<Rightarrow> filesystem" where
  "mkdirs fs [] = fs"
| "mkdirs fs (p # ps) =
     (case fs p of
        None \<Rightarrow> mkdirs (fs(p \<mapsto> Dir)) ps
      | Some Dir \<Rightarrow> mkdirs fs ps
      | Some (File c) \<Rightarrow> fs)"

definition os_MkdirAll :: "filesystem \<Rightarrow> string \<Rightarrow> filesystem" where
  "os_MkdirAll fs path = mkdirs fs (dir_prefixes path)"

text \<open>
  \<^verbatim>\<open>os.OpenFile(name, O_RDWR|O_APPEND|O_CREATE, ModePerm)\<close>: a directory cannot be opened
  for writing, and a file is created only inside an existing directory.
\<close>

definition parent_of :: "string \<Rightarrow> string" where
  "parent_of name = rev (tl (dropWhile (\<lambda>c. c \<noteq> CHR ''/'') (rev name)))"

definition os_OpenFile :: "filesystem \<Rightarrow> string \<Rightarrow> string + filesystem" where
  "os_OpenFile fs name =
     (case fs name of
        Some Dir \<Rightarrow> Inl (''open '' @ name @ '': is a directory'')
      | Some (File c) \<Rightarrow> Inr fs
      | None \<Rightarrow>
          (if parent_of name = [] \<or> fs (parent_of name) = Some Dir
           then Inr (fs(name \<mapsto> File []))
           else Inl (''open '' @ name @ '': no such file or directory'')))"

text \<open>A write in append mode to an open regular file.\<close>

definition append_file :: "filesystem \<Rightarrow> string \<Rightarrow> string \<Rightarrow> filesystem" where
  "append_file fs name txt =
     (case fs name of
        Some (File c) \<Rightarrow> fs(name \<mapsto> File (c @ txt))
      | Some Dir \<Rightarrow> fs
      | None \<Rightarrow> fs)"

subsection \<open>\<open>newDumpFile\<close>\<close>

definition isFileExist :: "filesystem \<Rightarrow> string \<Rightarrow> bool" where
  "isFileExist fs fn =
     (case os_Stat fs fn of
        Inl err \<Rightarrow> False
      | Inr finfo \<Rightarrow> (if IsDir finfo then False else True))"

text \<open>
  The probing loop of \<open>newDumpFile\<close>, from the counter \<open>n\<close>. It has no bound of its own: where
  it never finds a free name it does not return, which is the value \<open>None\<close>.
\<close>

partial_function (option) newDumpFile_loop ::
  "filesystem \<Rightarrow> string \<Rightarrow> string \<Rightarrow> int \<Rightarrow> string option" where
  "newDumpFile_loop fs dir filename n =
     (if \<not> isFileExist fs (dir @ filename @ ''_'' @ fmt_d n @ ''.log'')
      then Some (dir @ filename @ ''_'' @ fmt_d n @ ''.log'')
      else newDumpFile_loop fs dir filename (int64 (n + 1)))"

text \<open>
  \<open>binDir\<close> is the value of \<^verbatim>\<open>filepath.Abs(filepath.Dir(os.Args[0]))\<close> and \<open>now\<close> the local
  time. The result is the chosen path and the file system after \<^verbatim>\<open>MkdirAll\<close>.
\<close>

definition newDumpFile :: "string \<Rightarrow> Time \<Rightarrow> filesystem \<Rightarrow> (string \<times> filesystem) option" where
  "newDumpFile binDir now fs =
     (let filename = ''exceptions.'' @ fmt_0d 2 (Hour now) @ ''_'' @ fmt_0d 2 (Minute now)
                       @ ''_'' @ fmt_0d 2 (Second now);
          dir = TrimRight binDir ''/'' @ ''/exceptions/'' @ fmt_0d 4 (Year now) @ ''-''
                  @ fmt_0d 2 (Month now) @ ''-'' @ fmt_0d 2 (Day now) @ ''/'';
          fs = os_MkdirAll fs dir;
          fn = dir @ filename @ ''.log''
      in if \<not> isFileExist fs fn then Some (fn, fs)
         else map_option (\<lambda>fn. (fn, fs)) (newDumpFile_loop fs dir filename 1))"

subsection \<open>\<open>CatchException\<close>\<close>

text \<open>
  A value passed to \<^verbatim>\<open>panic\<close>: nil, or a value known by its \<^verbatim>\<open>%#v\<close> text. The process
  state the recovery block works on: the file system, the lines printed on standard
  output, and the panic in flight, if any.
\<close>

datatype go_value = nil_value | Val string

record world =
  w_fs :: filesystem
  w_stdout :: "string list"
  w_panicking :: "go_value option"

definition recover :: "world \<Rightarrow> go_value \<times> world" where
  "recover w =
     (case w_panicking w of
        None \<Rightarrow> (nil_value, w)
      | Some v \<Rightarrow> (v, w\<lparr>w_panicking := None\<rparr>))"

definition fmt_Println :: "string \<Rightarrow> world \<Rightarrow> world" where
  "fmt_Println txt w = w\<lparr>w_stdout := w_stdout w @ [txt @ [CHR 0x0A]]\<rparr>"

definition fmt_sharp_v :: "go_value \<Rightarrow> string" where
  "fmt_sharp_v v = (case v of nil_value \<Rightarrow> ''<nil>'' | Val txt \<Rightarrow> txt)"

text \<open>
  The record of \<open>CatchException\<close>; \<open>now_text\<close> is \<^verbatim>\<open>time.Now()\<close> under \<^verbatim>\<open>%v\<close> and \<open>stack\<close> is
  \<^verbatim>\<open>debug.Stack()\<close>.
\<close>

definition strLog :: "string \<Rightarrow> go_value \<Rightarrow> string \<Rightarrow> string" where
  "strLog now_text err stack =
     [CHR 0x0A] @ replicate 79 (CHR ''='') @ [CHR 0x0A]
     @ ''TIME: '' @ now_text @ [CHR 0x0A]
     @ ''EXCEPTION: '' @ fmt_sharp_v err @ [CHR 0x0A]
     @ replicate 79 (CHR ''='') @ [CHR 0x09, CHR 0x09, CHR 0x0A]
     @ stack"

text \<open>
  The recovery block. The result is \<open>None\<close> where \<open>newDumpFile\<close> does not return; otherwise it
  is the process state in which control goes back to the caller. The logger over the file
  has no prefix and no flags, so \<^verbatim>\<open>Println\<close> writes the text and a line feed; errors of
  the write are dropped by the source, and the deferred \<^verbatim>\<open>Close\<close> changes nothing seen here.
\<close>

definition CatchException ::
  "string \<Rightarrow> Time \<Rightarrow> string \<Rightarrow> string \<Rightarrow> world \<Rightarrow> world option" where
  "CatchException binDir now now_text stack w =
     (case recover w of
        (err, w) \<Rightarrow>
          (if err \<noteq> nil_value
           then (case newDumpFile binDir now (w_fs w) of
                   None \<Rightarrow> None
                 | Some (fn, fs) \<Rightarrow>
                     (case os_OpenFile fs fn of
                        Inl err2 \<Rightarrow> Some (fmt_Println err2 (w\<lparr>w_fs := fs\<rparr>))
                      | Inr fs \<Rightarrow>
                          (let txt = strLog now_text err stack;
                               fs = append_file fs fn (txt @ [CHR 0x0A])
                           in Some (fmt_Println txt (w\<lparr>w_fs := fs\<rparr>)))))
           else Some w))"

section \<open>Vocabulary of the specification\<close>

text \<open>
  The option lists the specification speaks of are lists of calls of the twelve option
  constructors. A \<open>setting\<close> names one such call; \<open>option_of\<close> is the call itself.
\<close>

datatype setting =
  S_MaxSize int | S_MaxBackups int | S_MaxAge int | S_LogFileDir string
  | S_AppName string | S_Level Level | S_FileName string | S_ErrorFileName string
  | S_WarnFileName string | S_InfoFileName string | S_DebugFileName string
  | S_Development bool

fun option_of :: "setting \<Rightarrow> Option" where
  "option_of (S_MaxSize v) = WithMaxSize v"
| "option_of (S_MaxBackups v) = WithMaxBackups v"
| "option_of (S_MaxAge v) = WithMaxAge v"
| "option_of (S_LogFileDir v) = WithLogFileDir v"
| "option_of (S_AppName v) = WithAppName v"
| "option_of (S_Level v) = WithLevel v"
| "option_of (S_FileName v) = WithFileName v"
| "option_of (S_ErrorFileName v) = WithErrorFileName v"
| "option_of (S_WarnFileName v) = WithWarnFileName v"
| "option_of (S_InfoFileName v) = WithInfoFileName v"
| "option_of (S_DebugFileName v) = WithDebugFileName v"
| "option_of (S_Development v) = WithDevelopment v"

text \<open>
  Last write wins, in the specification's words: a field has the value of the last setting
  of that field in the list, and its documented default where the list has none.
\<close>

definition last_or :: "'a \<Rightarrow> 'a list \<Rightarrow> 'a" where
  "last_or d xs = (if xs = [] then d else last xs)"

definition spec_Options :: "env \<Rightarrow> setting list \<Rightarrow> Options" where
  "spec_Options e ss =
     \<lparr>LogFileDir = last_or (cwd e @ sp e @ ''logs'' @ sp e) [v. S_LogFileDir v \<leftarrow> ss],
      AppName = last_or ''app'' [v. S_AppName v \<leftarrow> ss],
      FileName = last_or ''.log'' [v. S_FileName v \<leftarrow> ss],
      ErrorFileName = last_or [] [v. S_ErrorFileName v \<leftarrow> ss],
      WarnFileName = last_or [] [v. S_WarnFileName v \<leftarrow> ss],
      InfoFileName = last_or [] [v. S_InfoFileName v \<leftarrow> ss],
      DebugFileName = last_or [] [v. S_DebugFileName v \<leftarrow> ss],
      Level = last_or DebugLevel [v. S_Level v \<leftarrow> ss],
      MaxSize = last_or 100 [v. S_MaxSize v \<leftarrow> ss],
      MaxBackups = last_or 60 [v. S_MaxBackups v \<leftarrow> ss],
      MaxAge = last_or 30 [v. S_MaxAge v \<leftarrow> ss],
      Development = last_or False [v. S_Development v \<leftarrow> ss],
      Config = zero_Config, Merge = False\<rparr>"

text \<open>The settings of the per-severity file names.\<close>

fun is_severity_name :: "setting \<Rightarrow> bool" where
  "is_severity_name (S_ErrorFileName v) = True"
| "is_severity_name (S_WarnFileName v) = True"
| "is_severity_name (S_InfoFileName v) = True"
| "is_severity_name (S_DebugFileName v) = True"
| "is_severity_name s = False"

text \<open>The sinks constructed in a trace, in order.\<close>

definition sinks_constructed :: "event list \<Rightarrow> WriteSyncer list" where
  "sinks_constructed tr = [ws. SinkConstructed ws \<leftarrow> tr]"

text \<open>The messages of the records written in a trace, in order.\<close>

definition messages_written :: "event list \<Rightarrow> string list" where
  "messages_written tr = [msg. Written ws enc lvl msg \<leftarrow> tr]"

text \<open>
  The dump path in the specification's words: the binary's directory (without trailing
  slashes), the date as \<open>YYYY-MM-DD\<close>, the time as \<open>HH_MM_SS\<close>, each field with exactly that
  many decimal digits, then a suffix and the extension.
\<close>

definition two_digits :: "int \<Rightarrow> string" where
  "two_digits x = [digit (nat x div 10 mod 10), digit (nat x mod 10)]"

definition four_digits :: "int \<Rightarrow> string" where
  "four_digits x =
     [digit (nat x div 1000 mod 10), digit (nat x div 100 mod 10),
      digit (nat x div 10 mod 10), digit (nat x mod 10)]"

definition spec_dump_path :: "string \<Rightarrow> Time \<Rightarrow> string \<Rightarrow> string" where
  "spec_dump_path binDir now suffix =
     TrimRight binDir ''/'' @ ''/exceptions/''
     @ four_digits (Year now) @ ''-'' @ two_digits (Month now) @ ''-'' @ two_digits (Day now)
     @ ''/exceptions.''
     @ two_digits (Hour now) @ ''_'' @ two_digits (Minute now) @ ''_'' @ two_digits (Second now)
     @ suffix @ ''.log''"

definition clock_reading :: "Time \<Rightarrow> bool" where
  "clock_reading now =
     (0 \<le> Year now \<and> Year now \<le> 9999 \<and> 1 \<le> Month now \<and> Month now \<le> 12
      \<and> 1 \<le> Day now \<and> Day now \<le> 31 \<and> 0 \<le> Hour now \<and> Hour now \<le> 23
      \<and> 0 \<le> Minute now \<and> Minute now \<le> 59 \<and> 0 \<le> Second now \<and> Second now \<le> 59)"

text \<open>
  Concrete surroundings for the examples: the working directory \<open>/srv\<close> with the
  separator \<open>/\<close> and a build that succeeds, and the clock at 2026-10-31 10:30:00.
\<close>

definition example_env :: env where
  "example_env = \<lparr>cwd = ''/srv'', sp = ''/'', build_error = (\<lambda>c. None)\<rparr>"

definition example_now :: Time where
  "example_now = \<lparr>Year = 2026, Month = 10, Day = 31, Hour = 10, Minute = 30, Second = 0\<rparr>"

section \<open>Properties\<close>

subsection \<open>What \<open>NewLogger\<close> computes\<close>

text \<open>
  The guard on \<open>inited\<close> reads the logger that the first statement of \<open>NewLogger\<close> has just
  allocated, and the test of \<open>Development\<close> reads the options before any option is applied;
  both are false on every path, which leaves one straight line.
\<close>

lemma NewLogger_unfold:
  "NewLogger e opt st =
     (let opts = foldl (\<lambda>opts fn. fn opts)
                   (default_Options\<lparr>LogFileDir := cwd e @ sp e @ ''logs'' @ sp e\<rparr>) opt;
          cfg = \<lparr>cfg_Level = Level opts, cfg_Development = False, DisableStacktrace = True,
                  Encoding = ''json'',
                  cfg_EncoderConfig =
                    \<lparr>EncodeLevel = LowercaseLevelEncoder, EncodeTime = timeEncoder\<rparr>,
                  OutputPaths = [''stderr''], ErrorOutputPaths = [''stderr'']\<rparr>;
          ws = setSyncers_f e opts (FileName opts);
          cs = \<lparr>core_enc = NewJSONEncoder (cfg_EncoderConfig cfg), core_ws = ws,
                 core_enab = filePriority\<rparr> #
               (if Development opts
                then [\<lparr>core_enc = NewConsoleEncoder
                         \<lparr>EncodeLevel = CapitalColorLevelEncoder, EncodeTime = timeEncoder\<rparr>,
                       core_ws = consoleWs, core_enab = filePriority\<rparr>]
                else []);
          tr = g_trace st @ [SinkConstructed ws]
      in case build_error e cfg of
           Some err \<Rightarrow>
             (Panic err,
              st\<lparr>g_l := Some \<lparr>zLogger = None, Opts = Some opts, zapConfig = cfg,
                              inited = False\<rparr>,
                 g_fileWs := ws, g_trace := tr\<rparr>)
         | None \<Rightarrow>
             (Return (Some \<lparr>tee = cs\<rparr>),
              st\<lparr>g_l := Some \<lparr>zLogger = Some \<lparr>tee = cs\<rparr>, Opts = Some opts,
                              zapConfig = cfg, inited = True\<rparr>,
                 g_fileWs := ws, g_entry := Rebound (Some \<lparr>tee = cs\<rparr>),
                 g_trace := tr @ zap_log cfg \<lparr>tee = cs\<rparr> InfoLevel ''[NewLogger] success''\<rparr>))"
  by (simp add: NewLogger_def Let_def default_Options_def zero_Config_def init_def
      setSyncers_def cores_def l_Info_def NewDevelopmentEncoderConfig_def
      NewProductionConfig_def NewProductionEncoderConfig_def split: option.splits)

lemma NewLogger_global:
  "\<exists>lg. g_l (snd (NewLogger e opt st)) = Some lg
     \<and> Opts lg = Some (foldl (\<lambda>opts fn. fn opts)
          (default_Options\<lparr>LogFileDir := cwd e @ sp e @ ''logs'' @ sp e\<rparr>) opt)
     \<and> zapConfig lg =
          \<lparr>cfg_Level = Level (foldl (\<lambda>opts fn. fn opts)
               (default_Options\<lparr>LogFileDir := cwd e @ sp e @ ''logs'' @ sp e\<rparr>) opt),
           cfg_Development = False, DisableStacktrace = True, Encoding = ''json'',
           cfg_EncoderConfig =
             \<lparr>EncodeLevel = LowercaseLevelEncoder, EncodeTime = timeEncoder\<rparr>,
           OutputPaths = [''stderr''], ErrorOutputPaths = [''stderr'']\<rparr>"
  by (simp add: NewLogger_unfold Let_def split: option.splits)

lemma last_or_snoc: "last_or d (xs @ [x]) = x"
  by (simp add: last_or_def)

lemma fold_options_spec:
  "foldl (\<lambda>opts fn. fn opts) (default_Options\<lparr>LogFileDir := cwd e @ sp e @ ''logs'' @ sp e\<rparr>)
     (map option_of ss) = spec_Options e ss"
proof (induction ss rule: rev_induct)
  case Nil
  show ?case
    by (simp add: spec_Options_def default_Options_def last_or_def)
next
  case (snoc s ss)
  have "foldl (\<lambda>opts fn. fn opts)
          (default_Options\<lparr>LogFileDir := cwd e @ sp e @ ''logs'' @ sp e\<rparr>)
          (map option_of (ss @ [s])) = option_of s (spec_Options e ss)"
    using snoc by simp
  also have "\<dots> = spec_Options e (ss @ [s])"
    by (cases s)
      (simp_all add: spec_Options_def last_or_snoc WithMaxSize_def WithMaxBackups_def
        WithMaxAge_def WithLogFileDir_def WithAppName_def WithLevel_def WithFileName_def
        WithErrorFileName_def WithWarnFileName_def WithInfoFileName_def
        WithDebugFileName_def WithDevelopment_def)
  finally show ?case .
qed

subsection \<open>File sink naming\<close>

text \<open>
  Claim C3. For every suffix, the file sink is named output directory, separator,
  application name, hyphen, suffix; except that for a suffix of length 4 (the length of
  \<open>.log\<close>) the hyphen is left out. The choice depends on the length of the suffix only,
  whatever its characters. The rotation limits are those of the options.
\<close>

theorem setSyncers_f_fileName:
  "setSyncers_f e opts fN =
     AddSync \<lparr>Filename = (if length fN = 4
                          then LogFileDir opts @ sp e @ AppName opts @ fN
                          else LogFileDir opts @ sp e @ AppName opts @ ''-'' @ fN),
              lj_MaxSize = MaxSize opts, lj_MaxBackups = MaxBackups opts,
              lj_MaxAge = MaxAge opts, Compress = True, LocalTime = True\<rparr>"
  by (simp add: setSyncers_f_def)

text \<open>
  The two branches on literal inputs, and a suffix of length 4 that is not \<open>.log\<close>.
\<close>

theorem setSyncers_f_fileName_witness:
  "setSyncers_f example_env (default_Options\<lparr>LogFileDir := ''/var/log''\<rparr>) ''.log''
   = AddSync \<lparr>Filename = ''/var/log/app.log'', lj_MaxSize = 100, lj_MaxBackups = 60,
       lj_MaxAge = 30, Compress = True, LocalTime = True\<rparr>
   \<and> setSyncers_f example_env (default_Options\<lparr>LogFileDir := ''/var/log''\<rparr>) ''error.log''
   = AddSync \<lparr>Filename = ''/var/log/app-error.log'', lj_MaxSize = 100, lj_MaxBackups = 60,
       lj_MaxAge = 30, Compress = True, LocalTime = True\<rparr>
   \<and> setSyncers_f example_env (default_Options\<lparr>LogFileDir := ''/var/log''\<rparr>) ''.txt''
   = AddSync \<lparr>Filename = ''/var/log/app.txt'', lj_MaxSize = 100, lj_MaxBackups = 60,
       lj_MaxAge = 30, Compress = True, LocalTime = True\<rparr>"
  using
    setSyncers_f_fileName [of example_env
      "default_Options\<lparr>LogFileDir := ''/var/log''\<rparr>" "''.log''"]
    setSyncers_f_fileName [of example_env
      "default_Options\<lparr>LogFileDir := ''/var/log''\<rparr>" "''error.log''"]
    setSyncers_f_fileName [of example_env
      "default_Options\<lparr>LogFileDir := ''/var/log''\<rparr>" "''.txt''"]
  by (simp add: default_Options_def example_env_def)

subsection \<open>Options and defaults\<close>

text \<open>
  Claim C6. For every list of options, \<open>NewLogger\<close> applies them to the defaults in the
  order given (the output directory already resolved to the working directory's \<open>logs\<close>
  folder). For a list of calls of the option constructors, each field of the resulting
  options has the value of the last setting of that field, and the documented default
  where the list sets none: application name \<open>app\<close>, base suffix \<open>.log\<close>, level Debug,
  size 100, backups 60, age 30, production mode, no merging, directory \<open><cwd>/logs/\<close>.
\<close>

theorem NewLogger_last_write_wins:
  "(\<exists>lg. g_l (snd (NewLogger e opt st)) = Some lg
      \<and> Opts lg = Some (foldl (\<lambda>opts fn. fn opts)
           (default_Options\<lparr>LogFileDir := cwd e @ sp e @ ''logs'' @ sp e\<rparr>) opt))
   \<and> (\<exists>lg. g_l (snd (NewLogger e (map option_of ss) st)) = Some lg
      \<and> Opts lg = Some (spec_Options e ss))"
proof
  show "\<exists>lg. g_l (snd (NewLogger e opt st)) = Some lg
      \<and> Opts lg = Some (foldl (\<lambda>opts fn. fn opts)
           (default_Options\<lparr>LogFileDir := cwd e @ sp e @ ''logs'' @ sp e\<rparr>) opt)"
    using NewLogger_global [of e opt st] by blast
next
  obtain lg where "g_l (snd (NewLogger e (map option_of ss) st)) = Some lg"
    and "Opts lg = Some (foldl (\<lambda>opts fn. fn opts)
           (default_Options\<lparr>LogFileDir := cwd e @ sp e @ ''logs'' @ sp e\<rparr>)
           (map option_of ss))"
    using NewLogger_global [of e "map option_of ss" st] by blast
  then show "\<exists>lg. g_l (snd (NewLogger e (map option_of ss) st)) = Some lg
      \<and> Opts lg = Some (spec_Options e ss)"
    unfolding fold_options_spec by blast
qed

theorem NewLogger_last_write_wins_witness:
  "\<exists>lg. g_l (snd (NewLogger example_env
              [WithMaxSize 5, WithAppName ''svc'', WithMaxSize 7] initial_state)) = Some lg
      \<and> Opts lg = Some \<lparr>LogFileDir = ''/srv/logs/'', AppName = ''svc'', FileName = ''.log'',
          ErrorFileName = [], WarnFileName = [], InfoFileName = [], DebugFileName = [],
          Level = - 1, MaxSize = 7, MaxBackups = 60, MaxAge = 30, Development = False,
          Config = zero_Config, Merge = False\<rparr>"
  using NewLogger_last_write_wins [of example_env "[]" initial_state
    "[S_MaxSize 5, S_AppName ''svc'', S_MaxSize 7]"]
  by (simp add: spec_Options_def last_or_def DebugLevel_def example_env_def)

subsection \<open>Output paths\<close>

text \<open>
  Claim C10. The output paths and the error output paths of the default options are
  both empty, so both tests of \<open>NewLogger\<close> hold and the second assignment to \<open>OutputPaths\<close>
  stands: for every list of options, the \<open>OutputPaths\<close> of the logger's zap configuration
  after \<open>NewLogger\<close> is \<open>["stderr"]\<close>.
\<close>

theorem NewLogger_OutputPaths_stderr:
  "OutputPaths (Config default_Options) = []
   \<and> ErrorOutputPaths (Config default_Options) = []
   \<and> (\<exists>lg. g_l (snd (NewLogger e opt st)) = Some lg
         \<and> OutputPaths (zapConfig lg) = [''stderr''])"
  using NewLogger_global [of e opt st]
  by (auto simp: default_Options_def zero_Config_def)

subsection \<open>Initialising twice\<close>

text \<open>
  Claim C1 says that a second call of \<open>NewLogger\<close> constructs no sink, emits the record
  \<open>[NewLogger] logger Inited\<close> and returns nil. The code does not: \<open>NewLogger\<close> begins by
  replacing the global logger with a fresh one, whose \<open>inited\<close> flag is false, so the
  guard never holds. Two calls in sequence from the initial state, without options:
  the second call returns a logger, two sinks have been constructed, and the records
  written are the two success records.
\<close>

theorem NewLogger_twice_constructs_twice:
  "fst (NewLogger example_env [] (snd (NewLogger example_env [] initial_state)))
     \<noteq> Return None
   \<and> sinks_constructed
         (g_trace (snd (NewLogger example_env [] (snd (NewLogger example_env [] initial_state)))))
     = [AddSync \<lparr>Filename = ''/srv/logs//app.log'', lj_MaxSize = 100, lj_MaxBackups = 60,
           lj_MaxAge = 30, Compress = True, LocalTime = True\<rparr>,
        AddSync \<lparr>Filename = ''/srv/logs//app.log'', lj_MaxSize = 100, lj_MaxBackups = 60,
           lj_MaxAge = 30, Compress = True, LocalTime = True\<rparr>]
   \<and> messages_written
         (g_trace (snd (NewLogger example_env [] (snd (NewLogger example_env [] initial_state)))))
     = [''[NewLogger] success'', ''[NewLogger] success'']"
  by (simp add: NewLogger_unfold Let_def initial_state_def sinks_constructed_def
      messages_written_def zap_log_def filePriority_def InfoLevel_def DebugLevel_def
      default_Options_def setSyncers_f_def example_env_def)

subsection \<open>The encoder preset\<close>

text \<open>
  Claim C5 says that the development mode selected by the options gives the development
  preset. The code does not: it tests \<open>Development\<close> before the options are applied, where
  it is always false. With the option \<open>WithDevelopment(true)\<close> the options end in
  development mode and the console core is attached, yet the logger's configuration is
  the production preset (JSON encoding, production encoder functions) with the custom
  time encoder.
\<close>

theorem NewLogger_Development_keeps_Production_preset:
  "\<exists>z lg opts.
     fst (NewLogger example_env [WithDevelopment True] initial_state) = Return (Some z)
     \<and> g_l (snd (NewLogger example_env [WithDevelopment True] initial_state)) = Some lg
     \<and> Opts lg = Some opts \<and> Development opts = True
     \<and> zapConfig lg = NewProductionConfig\<lparr>cfg_EncoderConfig :=
           NewProductionEncoderConfig\<lparr>EncodeTime := timeEncoder\<rparr>,
           DisableStacktrace := True, cfg_Level := DebugLevel\<rparr>
     \<and> map core_ws (tee z)
         = [AddSync \<lparr>Filename = ''/srv/logs//app.log'', lj_MaxSize = 100, lj_MaxBackups = 60,
              lj_MaxAge = 30, Compress = True, LocalTime = True\<rparr>, consoleWs]
     \<and> map core_enc (tee z)
         = [NewJSONEncoder (NewProductionEncoderConfig\<lparr>EncodeTime := timeEncoder\<rparr>),
            NewConsoleEncoder (NewDevelopmentEncoderConfig\<lparr>EncodeTime := timeEncoder,
              EncodeLevel := CapitalColorLevelEncoder\<rparr>)]"
  by (simp add: NewLogger_unfold Let_def initial_state_def WithDevelopment_def
      default_Options_def setSyncers_f_def NewProductionConfig_def
      NewProductionEncoderConfig_def NewDevelopmentEncoderConfig_def DebugLevel_def
      example_env_def)

subsection \<open>The severity filter\<close>



subsection \<open>Dump-file naming\<close>

lemma itoa_lt10: "n < 10 \<Longrightarrow> itoa n = [digit n]"
  by (simp add: itoa.simps)

lemma itoa_lt100: "10 \<le> n \<Longrightarrow> n < 100 \<Longrightarrow> itoa n = [digit (n div 10), digit (n mod 10)]"
  by (subst itoa.simps) (simp add: itoa_lt10)

lemma itoa_lt1000:
  "100 \<le> n \<Longrightarrow> n < 1000 \<Longrightarrow> itoa n = [digit (n div 100), digit (n div 10 mod 10), digit (n mod 10)]"
  by (subst itoa.simps) (simp add: itoa_lt100 div_mult2_eq[symmetric])

lemma itoa_lt10000:
  "1000 \<le> n \<Longrightarrow> n < 10000 \<Longrightarrow>
   itoa n = [digit (n div 1000), digit (n div 100 mod 10), digit (n div 10 mod 10), digit (n mod 10)]"
  by (subst itoa.simps) (simp add: itoa_lt1000 div_mult2_eq[symmetric])

lemma digit_0: "digit 0 = CHR ''0''"
  by (simp add: digit_def)

lemma replicate_2: "replicate 2 c = [c, c]"
  by (simp add: numeral_2_eq_2)

lemma replicate_3: "replicate 3 c = [c, c, c]"
  by (simp add: numeral_3_eq_3)

lemma fmt_0d_two: "0 \<le> x \<Longrightarrow> x \<le> 99 \<Longrightarrow> fmt_0d 2 x = two_digits x"
proof -
  assume a: "0 \<le> x" "x \<le> 99"
  show ?thesis
  proof (cases "nat x < 10")
    case True
    then show ?thesis using a by (simp add: fmt_0d_def two_digits_def itoa_lt10 digit_0)
  next
    case False
    then have "10 \<le> nat x" "nat x < 100" using a by auto
    then show ?thesis using a by (simp add: fmt_0d_def two_digits_def itoa_lt100)
  qed
qed

lemma fmt_0d_four: "0 \<le> x \<Longrightarrow> x \<le> 9999 \<Longrightarrow> fmt_0d 4 x = four_digits x"
proof -
  assume a: "0 \<le> x" "x \<le> 9999"
  consider "nat x < 10" | "10 \<le> nat x" "nat x < 100" | "100 \<le> nat x" "nat x < 1000"
    | "1000 \<le> nat x" "nat x < 10000" using a by linarith
  then show ?thesis
  proof cases
    case 1
    then show ?thesis using a by (simp add: fmt_0d_def four_digits_def replicate_2 replicate_3 itoa_lt10 digit_0)
  next
    case 2
    then show ?thesis using a by (simp add: fmt_0d_def four_digits_def replicate_2 replicate_3 itoa_lt100 digit_0)
  next
    case 3
    then show ?thesis using a by (simp add: fmt_0d_def four_digits_def replicate_2 replicate_3 itoa_lt1000 digit_0)
  next
    case 4
    then show ?thesis using a by (simp add: fmt_0d_def four_digits_def replicate_2 replicate_3 itoa_lt10000 digit_0)
  qed
qed

lemma isFileExist_upd_Dir: "fs p = None \<Longrightarrow> isFileExist (fs(p \<mapsto> Dir)) q = isFileExist fs q"
  by (simp add: isFileExist_def os_Stat_def IsDir_def)

lemma isFileExist_mkdirs: "isFileExist (mkdirs fs ps) q = isFileExist fs q"
proof (induction ps arbitrary: fs)
  case Nil
  show ?case by simp
next
  case (Cons p ps)
  show ?case
  proof (cases "fs p")
    case None
    have "isFileExist (mkdirs (fs(p \<mapsto> Dir)) ps) q = isFileExist (fs(p \<mapsto> Dir)) q"
      by (rule Cons)
    also have "\<dots> = isFileExist fs q"
      using None by (rule isFileExist_upd_Dir)
    finally show ?thesis using None by simp
  next
    case (Some nd)
    then show ?thesis using Cons [of fs] by (cases nd) simp_all
  qed
qed

lemma isFileExist_MkdirAll: "isFileExist (os_MkdirAll fs dir) q = isFileExist fs q"
  by (simp add: os_MkdirAll_def isFileExist_mkdirs)

lemma int64_id: "- (2 ^ 63) \<le> x \<Longrightarrow> x < 2 ^ 63 \<Longrightarrow> int64 x = x"
  by (simp add: int64_def)

lemma newDumpFile_loop_finds:
  assumes "1 \<le> n" "n \<le> k" "k < 2 ^ 63"
    and "\<not> isFileExist fs (dir @ filename @ ''_'' @ fmt_d k @ ''.log'')"
    and "\<forall>j. n \<le> j \<and> j < k \<longrightarrow> isFileExist fs (dir @ filename @ ''_'' @ fmt_d j @ ''.log'')"
  shows "newDumpFile_loop fs dir filename n = Some (dir @ filename @ ''_'' @ fmt_d k @ ''.log'')"
  using assms
proof (induction "nat (k - n)" arbitrary: n)
  case 0
  then have "n = k" by simp
  then show ?case using "0.prems" by (subst newDumpFile_loop.simps) simp
next
  case (Suc d)
  then have lt: "n < k" by linarith
  then have occ: "isFileExist fs (dir @ filename @ ''_'' @ fmt_d n @ ''.log'')"
    using Suc.prems by simp
  have step: "int64 (n + 1) = n + 1"
    using Suc.prems lt by (intro int64_id) linarith+
  have "newDumpFile_loop fs dir filename (n + 1)
          = Some (dir @ filename @ ''_'' @ fmt_d k @ ''.log'')"
  proof (rule Suc.hyps(1))
    show "d = nat (k - (n + 1))" using Suc.hyps(2) by linarith
    show "1 \<le> n + 1" using Suc.prems by linarith
    show "n + 1 \<le> k" using lt by linarith
    show "k < 2 ^ 63" by (rule Suc.prems)
    show "\<not> isFileExist fs (dir @ filename @ ''_'' @ fmt_d k @ ''.log'')" by (rule Suc.prems)
    show "\<forall>j. n + 1 \<le> j \<and> j < k \<longrightarrow> isFileExist fs (dir @ filename @ ''_'' @ fmt_d j @ ''.log'')"
      using Suc.prems by simp
  qed
  then show ?case using occ step by (subst newDumpFile_loop.simps) simp
qed

lemma fmt_d_nonneg: "0 \<le> x \<Longrightarrow> fmt_d x = itoa (nat x)"
  by (simp add: fmt_d_def)

lemma newDumpFile_spec_names:
  assumes "clock_reading now"
  shows "TrimRight binDir ''/'' @ ''/exceptions/'' @ fmt_0d 4 (Year now) @ ''-''
           @ fmt_0d 2 (Month now) @ ''-'' @ fmt_0d 2 (Day now) @ ''/''
           @ (''exceptions.'' @ fmt_0d 2 (Hour now) @ ''_'' @ fmt_0d 2 (Minute now)
                @ ''_'' @ fmt_0d 2 (Second now)) @ suffix @ ''.log''
         = spec_dump_path binDir now suffix"
  using assms
  by (simp add: clock_reading_def spec_dump_path_def fmt_0d_two fmt_0d_four)

lemma newDumpFile_plain:
  assumes "clock_reading now" and "\<not> isFileExist fs (spec_dump_path binDir now [])"
  shows "\<exists>fs'. newDumpFile binDir now fs = Some (spec_dump_path binDir now [], fs')
           \<and> (\<forall>q. isFileExist fs' q = isFileExist fs q)"
  using assms(2) newDumpFile_spec_names [OF assms(1), of binDir "[]"]
  by (simp add: newDumpFile_def Let_def isFileExist_MkdirAll)

lemma newDumpFile_numbered:
  fixes k :: nat
  assumes "clock_reading now" and "isFileExist fs (spec_dump_path binDir now [])"
    and "1 \<le> k" and "k < 2 ^ 63"
    and "\<not> isFileExist fs (spec_dump_path binDir now (''_'' @ itoa k))"
    and "\<forall>j. 1 \<le> j \<and> j < k \<longrightarrow> isFileExist fs (spec_dump_path binDir now (''_'' @ itoa j))"
  shows "\<exists>fs'. newDumpFile binDir now fs = Some (spec_dump_path binDir now (''_'' @ itoa k), fs')
           \<and> (\<forall>q. isFileExist fs' q = isFileExist fs q)"
proof -
  define dir where "dir = TrimRight binDir ''/'' @ ''/exceptions/'' @ fmt_0d 4 (Year now) @ ''-''
           @ fmt_0d 2 (Month now) @ ''-'' @ fmt_0d 2 (Day now) @ ''/''"
  define filename where "filename = ''exceptions.'' @ fmt_0d 2 (Hour now) @ ''_''
           @ fmt_0d 2 (Minute now) @ ''_'' @ fmt_0d 2 (Second now)"
  define fs' where "fs' = os_MkdirAll fs dir"
  have name: "dir @ filename @ suffix @ ''.log'' = spec_dump_path binDir now suffix" for suffix
    using newDumpFile_spec_names [OF assms(1), of binDir suffix]
    by (simp add: dir_def filename_def)
  have same: "isFileExist fs' q = isFileExist fs q" for q
    by (simp add: fs'_def isFileExist_MkdirAll)
  have numbered: "dir @ filename @ ''_'' @ fmt_d (int j) @ ''.log''
      = spec_dump_path binDir now (''_'' @ itoa j)" for j
    using name [of "''_'' @ itoa j"] by (simp add: fmt_d_nonneg)
  have "newDumpFile_loop fs' dir filename 1
          = Some (dir @ filename @ ''_'' @ fmt_d (int k) @ ''.log'')"
  proof (rule newDumpFile_loop_finds)
    show "(1::int) \<le> 1" by simp
    show "1 \<le> int k" using assms(3) by simp
    show "int k < 2 ^ 63" using assms(4) by (metis of_nat_less_iff of_nat_numeral of_nat_power)
    show "\<not> isFileExist fs' (dir @ filename @ ''_'' @ fmt_d (int k) @ ''.log'')"
      using assms(5) by (simp only: numbered same simp_thms)
    show "\<forall>j. 1 \<le> j \<and> j < int k
            \<longrightarrow> isFileExist fs' (dir @ filename @ ''_'' @ fmt_d j @ ''.log'')"
    proof (intro allI impI)
      fix j :: int
      assume j: "1 \<le> j \<and> j < int k"
      then have "1 \<le> nat j \<and> nat j < k" by linarith
      then have "isFileExist fs (spec_dump_path binDir now (''_'' @ itoa (nat j)))"
        using assms(6) by blast
      then have "isFileExist fs' (dir @ filename @ ''_'' @ fmt_d (int (nat j)) @ ''.log'')"
        by (simp only: numbered same simp_thms)
      then show "isFileExist fs' (dir @ filename @ ''_'' @ fmt_d j @ ''.log'')"
        using j by simp
    qed
  qed
  then have loop: "newDumpFile_loop fs' dir filename 1
      = Some (spec_dump_path binDir now (''_'' @ itoa k))"
    by (simp only: numbered)
  have plain: "isFileExist fs' (dir @ filename @ ''.log'')"
    using assms(2) name [of "[]"] by (simp add: same)
  have "newDumpFile binDir now fs
      = (if \<not> isFileExist fs' (dir @ filename @ ''.log'') then Some (dir @ filename @ ''.log'', fs')
         else map_option (\<lambda>fn. (fn, fs')) (newDumpFile_loop fs' dir filename 1))"
    by (simp add: newDumpFile_def Let_def dir_def filename_def fs'_def)
  then have "newDumpFile binDir now fs = Some (spec_dump_path binDir now (''_'' @ itoa k), fs')"
    using plain loop by simp
  then show ?thesis using same by blast
qed

lemma digit_simps:
  "digit 0 = CHR ''0''" "digit (Suc 0) = CHR ''1''" "digit 2 = CHR ''2''" "digit 3 = CHR ''3''"
  "digit 4 = CHR ''4''" "digit 5 = CHR ''5''" "digit 6 = CHR ''6''" "digit 7 = CHR ''7''"
  "digit 8 = CHR ''8''" "digit 9 = CHR ''9''"
  by (simp_all add: digit_def)

lemma example_dump_path:
  "spec_dump_path ''/opt/app'' example_now suffix
     = ''/opt/app/exceptions/2026-10-31/exceptions.10_30_00'' @ suffix @ ''.log''"
  by (simp add: spec_dump_path_def TrimRight_def two_digits_def four_digits_def digit_simps
      example_now_def)

lemma example_clock_reading: "clock_reading example_now"
  by (simp add: clock_reading_def example_now_def)

text \<open>
  Claim C2. For every reading of the local clock and every file system, \<open>newDumpFile\<close>
  returns the path made of the binary's directory, \<open>/exceptions/\<close>, the date as
  \<open>YYYY-MM-DD\<close>, \<open>/exceptions.\<close>, the time as \<open>HH_MM_SS\<close> and \<open>.log\<close>, all fields zero-padded,
  when that path is not a regular file; otherwise it returns that path with \<open>_k\<close> before
  \<open>.log\<close> for the least positive \<open>k\<close> whose path is not a regular file. A directory does not
  count as a regular file. The counter is a 64-bit integer, so \<open>k\<close> is below \<open>2^63\<close>.
\<close>

theorem newDumpFile_path:
  fixes k :: nat
  assumes "clock_reading now"
  shows "(\<not> isFileExist fs (spec_dump_path binDir now [])
            \<longrightarrow> map_option fst (newDumpFile binDir now fs) = Some (spec_dump_path binDir now []))
       \<and> (isFileExist fs (spec_dump_path binDir now []) \<and> 1 \<le> k \<and> k < 2 ^ 63
            \<and> \<not> isFileExist fs (spec_dump_path binDir now (''_'' @ itoa k))
            \<and> (\<forall>j. 1 \<le> j \<and> j < k
                  \<longrightarrow> isFileExist fs (spec_dump_path binDir now (''_'' @ itoa j)))
            \<longrightarrow> map_option fst (newDumpFile binDir now fs)
                  = Some (spec_dump_path binDir now (''_'' @ itoa k)))"
proof (intro conjI impI)
  assume "\<not> isFileExist fs (spec_dump_path binDir now [])"
  then show "map_option fst (newDumpFile binDir now fs) = Some (spec_dump_path binDir now [])"
    using newDumpFile_plain [OF assms, of fs binDir] by auto
next
  assume a: "isFileExist fs (spec_dump_path binDir now []) \<and> 1 \<le> k \<and> k < 2 ^ 63
            \<and> \<not> isFileExist fs (spec_dump_path binDir now (''_'' @ itoa k))
            \<and> (\<forall>j. 1 \<le> j \<and> j < k
                  \<longrightarrow> isFileExist fs (spec_dump_path binDir now (''_'' @ itoa j)))"
  then show "map_option fst (newDumpFile binDir now fs)
                  = Some (spec_dump_path binDir now (''_'' @ itoa k))"
    using newDumpFile_numbered [OF assms, of fs binDir k] by auto
qed

theorem newDumpFile_path_witness:
  "map_option fst (newDumpFile ''/opt/app'' example_now
      (Map.empty(''/opt/app/exceptions/2026-10-31/exceptions.10_30_00.log'' \<mapsto> File [],
                 ''/opt/app/exceptions/2026-10-31/exceptions.10_30_00_1.log'' \<mapsto> File [])))
   = Some ''/opt/app/exceptions/2026-10-31/exceptions.10_30_00_2.log''"
proof -
  let ?now = example_now
  let ?fs = "Map.empty(''/opt/app/exceptions/2026-10-31/exceptions.10_30_00.log'' \<mapsto> File [],
                 ''/opt/app/exceptions/2026-10-31/exceptions.10_30_00_1.log'' \<mapsto> File [])"
  note path = example_dump_path
  note clock = example_clock_reading
  have plain: "isFileExist ?fs (spec_dump_path ''/opt/app'' ?now [])"
    by (simp add: path isFileExist_def os_Stat_def IsDir_def)
  have one: "isFileExist ?fs (spec_dump_path ''/opt/app'' ?now (''_'' @ itoa (Suc 0)))"
    by (simp add: path itoa_lt10 digit_simps isFileExist_def os_Stat_def IsDir_def)
  have two: "\<not> isFileExist ?fs (spec_dump_path ''/opt/app'' ?now (''_'' @ itoa 2))"
    by (simp add: path itoa_lt10 digit_simps isFileExist_def os_Stat_def IsDir_def)
  have below: "\<forall>j. 1 \<le> j \<and> j < (2::nat)
      \<longrightarrow> isFileExist ?fs (spec_dump_path ''/opt/app'' ?now (''_'' @ itoa j))"
  proof (intro allI impI)
    fix j :: nat
    assume "1 \<le> j \<and> j < 2"
    then have "j = Suc 0" by linarith
    then show "isFileExist ?fs (spec_dump_path ''/opt/app'' ?now (''_'' @ itoa j))"
      using one by simp
  qed
  have "map_option fst (newDumpFile ''/opt/app'' ?now ?fs)
      = Some (spec_dump_path ''/opt/app'' ?now (''_'' @ itoa 2))"
    using newDumpFile_path [OF clock, of ?fs "''/opt/app''" 2] plain two below by simp
  then show ?thesis
    by (simp add: path itoa_lt10 digit_simps)
qed

subsection \<open>Changing the level\<close>

lemma SetLevel_built:
  assumes "g_l st = Some lg" and "Opts lg = Some opts" and "zLogger lg = Some z"
  shows "SetLevel v st =
     (Return (),
      st\<lparr>g_l := Some (lg\<lparr>Opts := Some (opts\<lparr>Level := v\<rparr>),
                          zapConfig := (zapConfig lg)\<lparr>cfg_Level := v\<rparr>\<rparr>),
         g_trace := g_trace st
            @ zap_log ((zapConfig lg)\<lparr>cfg_Level := v\<rparr>) z InfoLevel ''[SetLevel] success''\<rparr>)"
  using assms by (simp add: SetLevel_def Let_def l_Info_def)

lemma NewLogger_built:
  assumes "NewLogger e opt st0 = (Return (Some z), st)"
  shows "(\<exists>lg opts. g_l st = Some lg \<and> Opts lg = Some opts \<and> zLogger lg = Some z)
     \<and> (\<forall>c \<in> set (tee z). core_enab c = filePriority)"
  using assms
  by (auto simp: NewLogger_unfold Let_def split: option.splits if_splits)

lemma SetLevel_keeps_built:
  assumes "\<exists>lg opts. g_l st = Some lg \<and> Opts lg = Some opts \<and> zLogger lg = Some z"
  shows "\<exists>lg opts. g_l (snd (SetLevel u st)) = Some lg \<and> Opts lg = Some opts \<and> zLogger lg = Some z"
proof -
  obtain lg opts where a: "g_l st = Some lg" "Opts lg = Some opts" "zLogger lg = Some z"
    using assms by blast
  show ?thesis by (simp add: SetLevel_built [OF a] a)
qed

lemma SetLevels_keep_built:
  assumes "\<exists>lg opts. g_l st = Some lg \<and> Opts lg = Some opts \<and> zLogger lg = Some z"
  shows "\<exists>lg opts. g_l (foldl (\<lambda>s u. snd (SetLevel u s)) st us) = Some lg
           \<and> Opts lg = Some opts \<and> zLogger lg = Some z"
  using assms
proof (induction us arbitrary: st)
  case Nil
  then show ?case by simp
next
  case (Cons u us)
  show ?case
    using Cons.IH [OF SetLevel_keeps_built [OF Cons.prems, of u]] by simp
qed

text \<open>
  Claim C8. \<open>SetLevel\<close> changes nothing and returns when the global logger is nil, that
  is, before \<open>NewLogger\<close> has been called. After a call of \<open>NewLogger\<close> that returned a logger,
  and any number of calls of \<open>SetLevel\<close> since, \<open>SetLevel(v)\<close> returns, the level of the
  options and of the configuration is \<open>v\<close>, and from then on every core of the logger
  accepts a record at severity \<open>S\<close> if and only if \<open>S \<ge> v\<close>.
\<close>

theorem SetLevel_effect:
  "(g_l st = None \<longrightarrow> SetLevel v st = (Return (), st))
   \<and> (NewLogger e opt st0 = (Return (Some z), st1)
        \<and> st = foldl (\<lambda>s u. snd (SetLevel u s)) st1 us
      \<longrightarrow> (\<exists>st' lg opts. SetLevel v st = (Return (), st')
             \<and> g_l st' = Some lg \<and> zLogger lg = Some z
             \<and> Opts lg = Some opts \<and> Level opts = v \<and> cfg_Level (zapConfig lg) = v
             \<and> (\<forall>c \<in> set (tee z). \<forall>S. core_enab c (zapConfig lg) S = (S \<ge> v))
             \<and> (\<forall>S msg. zap_log (zapConfig lg) z S msg =
                   (if S \<ge> v then map (\<lambda>c. Written (core_ws c) (core_enc c) S msg) (tee z)
                    else []))))"
proof (intro conjI impI)
  assume "g_l st = None"
  then show "SetLevel v st = (Return (), st)" by (simp add: SetLevel_def)
next
  assume a: "NewLogger e opt st0 = (Return (Some z), st1)
        \<and> st = foldl (\<lambda>s u. snd (SetLevel u s)) st1 us"
  have enab: "\<forall>c \<in> set (tee z). core_enab c = filePriority"
    using NewLogger_built [of e opt st0 z st1] a by blast
  have "\<exists>lg opts. g_l st = Some lg \<and> Opts lg = Some opts \<and> zLogger lg = Some z"
    using SetLevels_keep_built [of st1 z us] NewLogger_built [of e opt st0 z st1] a by blast
  then obtain lg opts where b: "g_l st = Some lg" "Opts lg = Some opts" "zLogger lg = Some z"
    by blast
  show "\<exists>st' lg opts. SetLevel v st = (Return (), st')
             \<and> g_l st' = Some lg \<and> zLogger lg = Some z
             \<and> Opts lg = Some opts \<and> Level opts = v \<and> cfg_Level (zapConfig lg) = v
             \<and> (\<forall>c \<in> set (tee z). \<forall>S. core_enab c (zapConfig lg) S = (S \<ge> v))
             \<and> (\<forall>S msg. zap_log (zapConfig lg) z S msg =
                   (if S \<ge> v then map (\<lambda>c. Written (core_ws c) (core_enc c) S msg) (tee z)
                    else []))"
    using enab by (simp add: SetLevel_built [OF b] b filePriority_def zap_log_def)
qed

theorem SetLevel_effect_witness:
  "SetLevel ErrorLevel initial_state = (Return (), initial_state)
   \<and> (\<exists>st' lg opts.
         SetLevel WarnLevel (snd (NewLogger example_env [] initial_state)) = (Return (), st')
         \<and> g_l st' = Some lg \<and> Opts lg = Some opts \<and> Level opts = WarnLevel
         \<and> cfg_Level (zapConfig lg) = WarnLevel)"
proof -
  let ?st1 = "snd (NewLogger example_env [] initial_state)"
  obtain z where "fst (NewLogger example_env [] initial_state) = Return (Some z)"
    by (simp add: NewLogger_unfold Let_def example_env_def)
  then have new: "NewLogger example_env [] initial_state = (Return (Some z), ?st1)"
    by (metis prod.collapse)
  have fold: "?st1 = foldl (\<lambda>s u. snd (SetLevel u s)) ?st1 []"
    by simp
  have none: "g_l initial_state = None"
    by (simp add: initial_state_def)
  have first: "SetLevel ErrorLevel initial_state = (Return (), initial_state)"
    using SetLevel_effect [of initial_state ErrorLevel example_env "[]" initial_state z
        ?st1 "[]"] none by blast
  have second: "\<exists>st' lg opts. SetLevel WarnLevel ?st1 = (Return (), st')
         \<and> g_l st' = Some lg \<and> Opts lg = Some opts \<and> Level opts = WarnLevel
         \<and> cfg_Level (zapConfig lg) = WarnLevel"
    using SetLevel_effect [of ?st1 WarnLevel example_env "[]" initial_state z ?st1 "[]"]
      new fold by blast
  show ?thesis
    using first second by blast
qed

subsection \<open>Per-severity file names\<close>

lemma settings_without_severity_names:
  "[v. S_LogFileDir v \<leftarrow> filter (\<lambda>s. \<not> is_severity_name s) ss] = [v. S_LogFileDir v \<leftarrow> ss]"
  "[v. S_AppName v \<leftarrow> filter (\<lambda>s. \<not> is_severity_name s) ss] = [v. S_AppName v \<leftarrow> ss]"
  "[v. S_FileName v \<leftarrow> filter (\<lambda>s. \<not> is_severity_name s) ss] = [v. S_FileName v \<leftarrow> ss]"
  "[v. S_Level v \<leftarrow> filter (\<lambda>s. \<not> is_severity_name s) ss] = [v. S_Level v \<leftarrow> ss]"
  "[v. S_MaxSize v \<leftarrow> filter (\<lambda>s. \<not> is_severity_name s) ss] = [v. S_MaxSize v \<leftarrow> ss]"
  "[v. S_MaxBackups v \<leftarrow> filter (\<lambda>s. \<not> is_severity_name s) ss] = [v. S_MaxBackups v \<leftarrow> ss]"
  "[v. S_MaxAge v \<leftarrow> filter (\<lambda>s. \<not> is_severity_name s) ss] = [v. S_MaxAge v \<leftarrow> ss]"
  "[v. S_Development v \<leftarrow> filter (\<lambda>s. \<not> is_severity_name s) ss] = [v. S_Development v \<leftarrow> ss]"
  by (induction ss; simp split: setting.splits)+

lemma spec_Options_sink_fields:
  assumes "filter (\<lambda>s. \<not> is_severity_name s) ss1 = filter (\<lambda>s. \<not> is_severity_name s) ss2"
  shows "LogFileDir (spec_Options e ss1) = LogFileDir (spec_Options e ss2)"
    and "AppName (spec_Options e ss1) = AppName (spec_Options e ss2)"
    and "FileName (spec_Options e ss1) = FileName (spec_Options e ss2)"
    and "Level (spec_Options e ss1) = Level (spec_Options e ss2)"
    and "MaxSize (spec_Options e ss1) = MaxSize (spec_Options e ss2)"
    and "MaxBackups (spec_Options e ss1) = MaxBackups (spec_Options e ss2)"
    and "MaxAge (spec_Options e ss1) = MaxAge (spec_Options e ss2)"
    and "Development (spec_Options e ss1) = Development (spec_Options e ss2)"
  using settings_without_severity_names [of ss1, symmetric]
    settings_without_severity_names [of ss2, symmetric] assms
  by (simp_all add: spec_Options_def)

lemma setSyncers_f_fields:
  assumes "LogFileDir opts1 = LogFileDir opts2" "AppName opts1 = AppName opts2"
    "FileName opts1 = FileName opts2" "MaxSize opts1 = MaxSize opts2"
    "MaxBackups opts1 = MaxBackups opts2" "MaxAge opts1 = MaxAge opts2"
  shows "setSyncers_f e opts1 (FileName opts1) = setSyncers_f e opts2 (FileName opts2)"
  using assms by (simp add: setSyncers_f_def)

text \<open>
  Claim C9. The file sink depends on the options through the output directory, the
  application name, the base file name and the three rotation limits only. So for two
  lists of settings that are equal once the settings of the error, warn, info and debug
  file names are left out, \<open>NewLogger\<close> returns the same result (the same logger over the
  same cores and sinks, or the same panic), leaves the same file sink in \<open>fileWs\<close> and the
  same trace of constructed sinks and written records.
\<close>

theorem NewLogger_ignores_severity_file_names:
  "(LogFileDir opts1 = LogFileDir opts2 \<and> AppName opts1 = AppName opts2
      \<and> FileName opts1 = FileName opts2 \<and> MaxSize opts1 = MaxSize opts2
      \<and> MaxBackups opts1 = MaxBackups opts2 \<and> MaxAge opts1 = MaxAge opts2
    \<longrightarrow> setSyncers_f e opts1 (FileName opts1) = setSyncers_f e opts2 (FileName opts2))
   \<and> (filter (\<lambda>s. \<not> is_severity_name s) ss1 = filter (\<lambda>s. \<not> is_severity_name s) ss2
    \<longrightarrow> fst (NewLogger e (map option_of ss1) st) = fst (NewLogger e (map option_of ss2) st)
      \<and> g_fileWs (snd (NewLogger e (map option_of ss1) st))
          = g_fileWs (snd (NewLogger e (map option_of ss2) st))
      \<and> g_trace (snd (NewLogger e (map option_of ss1) st))
          = g_trace (snd (NewLogger e (map option_of ss2) st)))"
proof (intro conjI impI)
  assume "LogFileDir opts1 = LogFileDir opts2 \<and> AppName opts1 = AppName opts2
      \<and> FileName opts1 = FileName opts2 \<and> MaxSize opts1 = MaxSize opts2
      \<and> MaxBackups opts1 = MaxBackups opts2 \<and> MaxAge opts1 = MaxAge opts2"
  then show "setSyncers_f e opts1 (FileName opts1) = setSyncers_f e opts2 (FileName opts2)"
    by (intro setSyncers_f_fields) simp_all
next
  assume a: "filter (\<lambda>s. \<not> is_severity_name s) ss1 = filter (\<lambda>s. \<not> is_severity_name s) ss2"
  define A where "A = spec_Options e ss1"
  define B where "B = spec_Options e ss2"
  note f = spec_Options_sink_fields [OF a, of e, folded A_def B_def]
  have ws: "setSyncers_f e A (FileName A) = setSyncers_f e B (FileName B)"
    by (intro setSyncers_f_fields) (simp_all add: f)
  have l: "Level A = Level B" and d: "Development A = Development B"
    using f by simp_all
  show "fst (NewLogger e (map option_of ss1) st) = fst (NewLogger e (map option_of ss2) st)"
    unfolding NewLogger_unfold fold_options_spec A_def [symmetric] B_def [symmetric]
    by (simp add: Let_def ws l d split: option.splits)
  show "g_fileWs (snd (NewLogger e (map option_of ss1) st))
          = g_fileWs (snd (NewLogger e (map option_of ss2) st))"
    unfolding NewLogger_unfold fold_options_spec A_def [symmetric] B_def [symmetric]
    by (simp add: Let_def ws l d split: option.splits)
  show "g_trace (snd (NewLogger e (map option_of ss1) st))
          = g_trace (snd (NewLogger e (map option_of ss2) st))"
    unfolding NewLogger_unfold fold_options_spec A_def [symmetric] B_def [symmetric]
    by (simp add: Let_def ws l d split: option.splits)
qed

theorem NewLogger_ignores_severity_file_names_witness:
  "fst (NewLogger example_env [WithAppName ''svc'', WithErrorFileName ''err.log'']
          initial_state)
     = fst (NewLogger example_env [WithWarnFileName ''w.log'', WithAppName ''svc'']
          initial_state)
   \<and> g_fileWs (snd (NewLogger example_env [WithAppName ''svc'', WithErrorFileName ''err.log'']
        initial_state))
     = g_fileWs (snd (NewLogger example_env [WithWarnFileName ''w.log'', WithAppName ''svc'']
        initial_state))
   \<and> g_trace (snd (NewLogger example_env [WithAppName ''svc'', WithErrorFileName ''err.log'']
        initial_state))
     = g_trace (snd (NewLogger example_env [WithWarnFileName ''w.log'', WithAppName ''svc'']
        initial_state))"
  using NewLogger_ignores_severity_file_names [of default_Options default_Options
    example_env "[S_AppName ''svc'', S_ErrorFileName ''err.log'']"
    "[S_WarnFileName ''w.log'', S_AppName ''svc'']" initial_state]
  by simp

subsection \<open>The recovery block\<close>

lemma mkdirs_keeps: "fs q = Some nd \<Longrightarrow> mkdirs fs ps q = Some nd"
proof (induction ps arbitrary: fs)
  case Nil
  then show ?case by simp
next
  case (Cons p ps)
  show ?case
  proof (cases "fs p")
    case None
    then have "(fs(p \<mapsto> Dir)) q = Some nd" using Cons.prems by auto
    then have "mkdirs (fs(p \<mapsto> Dir)) ps q = Some nd" by (rule Cons.IH)
    then show ?thesis using None by simp
  next
    case (Some nd')
    then show ?thesis using Cons.IH [of fs] Cons.prems by (cases nd') simp_all
  qed
qed

lemma newDumpFile_keeps:
  assumes "newDumpFile binDir now fs = Some (fn, fs')" and "fs q = Some nd"
  shows "fs' q = Some nd"
  using assms
  by (auto simp: newDumpFile_def Let_def os_MkdirAll_def mkdirs_keeps split: if_splits)

lemma newDumpFile_returns:
  assumes "clock_reading now"
    and "\<exists>k::nat. 1 \<le> k \<and> k < 2 ^ 63
           \<and> \<not> isFileExist fs (spec_dump_path binDir now (''_'' @ itoa k))"
  shows "\<exists>fn fs'. newDumpFile binDir now fs = Some (fn, fs')"
proof (cases "isFileExist fs (spec_dump_path binDir now [])")
  case False
  then show ?thesis using newDumpFile_plain [OF assms(1), of fs binDir] by blast
next
  case True
  define P where "P k = (1 \<le> k \<and> \<not> isFileExist fs (spec_dump_path binDir now (''_'' @ itoa k)))" for k :: nat
  obtain k where k: "P k" "k < 2 ^ 63" using assms(2) by (auto simp: P_def)
  define m where "m = (LEAST k. P k)"
  have m: "P m" unfolding m_def using k(1) by (rule LeastI)
  have le: "m \<le> k" unfolding m_def using k(1) by (rule Least_le)
  have below: "\<forall>j. 1 \<le> j \<and> j < m \<longrightarrow> isFileExist fs (spec_dump_path binDir now (''_'' @ itoa j))"
  proof (intro allI impI)
    fix j assume j: "1 \<le> j \<and> j < m"
    then have "\<not> P j" unfolding m_def using not_less_Least by blast
    then show "isFileExist fs (spec_dump_path binDir now (''_'' @ itoa j))"
      using j by (simp add: P_def)
  qed
  have "m < 2 ^ 63" using le k(2) by linarith
  then show ?thesis
    using newDumpFile_numbered [OF assms(1) True _ _ _ below] m by (auto simp: P_def)
qed

text \<open>
  Claim C7. \<open>CatchException\<close> never raises the failure again: whatever value is in flight
  (or none), the block returns to its caller with no panic in flight, provided
  \<open>newDumpFile\<close> can find a free name (some numbered path below \<open>2^63\<close> is not a regular
  file). When the dump file cannot be opened, all that happens is that the open error is
  printed on standard output: no file is written, and the block returns.
\<close>

theorem CatchException_never_reraises:
  assumes "clock_reading now"
    and "\<exists>k::nat. 1 \<le> k \<and> k < 2 ^ 63
           \<and> \<not> isFileExist (w_fs w) (spec_dump_path binDir now (''_'' @ itoa k))"
  shows "\<exists>w'. CatchException binDir now now_text stack w = Some w'
           \<and> w_panicking w' = None
           \<and> (\<forall>v fn fs err2.
                 w_panicking w = Some v \<and> v \<noteq> nil_value
                 \<and> newDumpFile binDir now (w_fs w) = Some (fn, fs)
                 \<and> os_OpenFile fs fn = Inl err2
                 \<longrightarrow> w' = w\<lparr>w_fs := fs, w_stdout := w_stdout w @ [err2 @ [CHR 0x0A]],
                           w_panicking := None\<rparr>)"
proof -
  obtain fn fs' where dump: "newDumpFile binDir now (w_fs w) = Some (fn, fs')"
    using newDumpFile_returns [OF assms] by blast
  show ?thesis
  proof (cases "w_panicking w")
    case None
    then show ?thesis by (simp add: CatchException_def recover_def)
  next
    case (Some v)
    show ?thesis
    proof (cases "v = nil_value")
      case True
      then show ?thesis using Some by (simp add: CatchException_def recover_def)
    next
      case False
      show ?thesis
      proof (cases "os_OpenFile fs' fn")
        case (Inl err2)
        then show ?thesis using Some False dump
          by (simp add: CatchException_def recover_def fmt_Println_def)
      next
        case (Inr fs2)
        then show ?thesis using Some False dump
          by (simp add: CatchException_def recover_def fmt_Println_def Let_def)
      qed
    qed
  qed
qed

theorem CatchException_never_reraises_witness:
  "\<exists>w'. CatchException ''/opt/app'' example_now
           ''2026-10-31 10:30:00'' ''goroutine 1 [running]''
           \<lparr>w_fs = Map.empty(''/opt/app/exceptions/2026-10-31/exceptions.10_30_00.log'' \<mapsto> Dir),
             w_stdout = [], w_panicking = Some (Val ''boom'')\<rparr> = Some w'
      \<and> w_panicking w' = None
      \<and> w_stdout w'
          = [''open /opt/app/exceptions/2026-10-31/exceptions.10_30_00.log: is a directory''
             @ [CHR 0x0A]]"
proof -
  let ?now = example_now
  let ?p = "''/opt/app/exceptions/2026-10-31/exceptions.10_30_00.log''"
  let ?fs = "Map.empty(?p \<mapsto> Dir)"
  let ?w = "\<lparr>w_fs = ?fs, w_stdout = [], w_panicking = Some (Val ''boom'')\<rparr>"
  note path = example_dump_path
  note clock = example_clock_reading
  have free: "\<exists>k::nat. 1 \<le> k \<and> k < 2 ^ 63
           \<and> \<not> isFileExist (w_fs ?w) (spec_dump_path ''/opt/app'' ?now (''_'' @ itoa k))"
  proof (intro exI conjI)
    show "(1::nat) \<le> 1" by simp
    show "(1::nat) < 2 ^ 63" by simp
    show "\<not> isFileExist (w_fs ?w) (spec_dump_path ''/opt/app'' ?now (''_'' @ itoa 1))"
      by (simp add: path itoa_lt10 digit_simps isFileExist_def os_Stat_def)
  qed
  have "\<not> isFileExist ?fs (spec_dump_path ''/opt/app'' ?now [])"
    by (simp add: path isFileExist_def os_Stat_def IsDir_def)
  then obtain fs' where dump: "newDumpFile ''/opt/app'' ?now ?fs = Some (?p, fs')"
    using newDumpFile_plain [OF clock, of ?fs "''/opt/app''"] by (auto simp: path)
  have "fs' ?p = Some Dir"
    using newDumpFile_keeps [OF dump, of ?p Dir] by simp
  then have "os_OpenFile fs' ?p = Inl (''open '' @ ?p @ '': is a directory'')"
    by (simp add: os_OpenFile_def)
  then show ?thesis
    using CatchException_never_reraises [OF clock free, of "''2026-10-31 10:30:00''"
        "''goroutine 1 [running]''"] dump
    by auto
qed

end
